theory Spec2Isabelle
  imports Complex_Main
begin

section \<open>JavaScript numbers and values\<close>

text \<open>
  The dashboard script \<^verbatim>\<open>src/kaqt_app/app.js\<close> computes with JavaScript numbers.
  A number is modelled as an exact real extended with the two infinities and NaN.
  Rounding to a binary64 value, overflow to an infinity and the sign of zero are not
  represented: arithmetic on finite numbers is exact. The program rounds every result
  to 53 significant bits, so a sum such as \<open>v + 1\<close> is \<open>v\<close> again from \<open>2 ^ 53\<close> on;
  a property that rests on such a sum being exact is stated below with a bound on the
  magnitude of the numbers, and coordinates are stated through the operations that
  compute them.
\<close>

datatype jsnum = NaN | NInf | Fin real | PInf

fun nneg :: "jsnum \<Rightarrow> jsnum" where
  "nneg NaN = NaN"
| "nneg NInf = PInf"
| "nneg (Fin a) = Fin (- a)"
| "nneg PInf = NInf"

fun nadd :: "jsnum \<Rightarrow> jsnum \<Rightarrow> jsnum" where
  "nadd NaN _ = NaN"
| "nadd _ NaN = NaN"
| "nadd (Fin a) (Fin b) = Fin (a + b)"
| "nadd PInf NInf = NaN"
| "nadd NInf PInf = NaN"
| "nadd PInf _ = PInf"
| "nadd _ PInf = PInf"
| "nadd NInf _ = NInf"
| "nadd _ NInf = NInf"

definition nsub :: "jsnum \<Rightarrow> jsnum \<Rightarrow> jsnum" where
  "nsub a b = nadd a (nneg b)"

text \<open>The sign of a number that is not NaN: \<open>-1\<close>, \<open>0\<close> or \<open>1\<close>.\<close>

fun nsign :: "jsnum \<Rightarrow> int" where
  "nsign NaN = 0"
| "nsign NInf = - 1"
| "nsign (Fin a) = (if a < 0 then - 1 else if a = 0 then 0 else 1)"
| "nsign PInf = 1"

definition of_sign :: "int \<Rightarrow> jsnum" where
  "of_sign s = (if s = 0 then NaN else if 0 < s then PInf else NInf)"

fun nmul :: "jsnum \<Rightarrow> jsnum \<Rightarrow> jsnum" where
  "nmul NaN _ = NaN"
| "nmul _ NaN = NaN"
| "nmul (Fin a) (Fin b) = Fin (a * b)"
| "nmul a b = of_sign (nsign a * nsign b)"

text \<open>
  Division. A finite numerator over zero gives an infinity of the numerator's sign
  (the zero is taken as \<open>+0\<close>), and \<open>0 / 0\<close> gives NaN.
\<close>

fun ndiv :: "jsnum \<Rightarrow> jsnum \<Rightarrow> jsnum" where
  "ndiv NaN _ = NaN"
| "ndiv _ NaN = NaN"
| "ndiv (Fin a) (Fin b) = (if b = 0 then of_sign (nsign (Fin a)) else Fin (a / b))"
| "ndiv (Fin a) _ = Fin 0"
| "ndiv a (Fin b) = (if b < 0 then nneg a else a)"
| "ndiv _ _ = NaN"

fun nlt :: "jsnum \<Rightarrow> jsnum \<Rightarrow> bool" where
  "nlt NaN _ = False"
| "nlt _ NaN = False"
| "nlt (Fin a) (Fin b) = (a < b)"
| "nlt NInf NInf = False"
| "nlt NInf _ = True"
| "nlt _ NInf = False"
| "nlt PInf _ = False"
| "nlt _ PInf = True"

text \<open>\<^verbatim>\<open>a === b\<close> on numbers: NaN is equal to nothing.\<close>

definition strict_eq :: "jsnum \<Rightarrow> jsnum \<Rightarrow> bool" where
  "strict_eq a b = (a \<noteq> NaN \<and> a = b)"

fun nabs :: "jsnum \<Rightarrow> jsnum" where
  "nabs NaN = NaN"
| "nabs NInf = PInf"
| "nabs (Fin a) = Fin \<bar>a\<bar>"
| "nabs PInf = PInf"

fun nfloor :: "jsnum \<Rightarrow> jsnum" where
  "nfloor (Fin a) = Fin (of_int \<lfloor>a\<rfloor>)"
| "nfloor a = a"

fun is_finite :: "jsnum \<Rightarrow> bool" where
  "is_finite (Fin a) = True"
| "is_finite _ = False"

text \<open>
  \<^verbatim>\<open>Math.min(...ys)\<close> and \<^verbatim>\<open>Math.max(...ys)\<close>: NaN as soon as one argument is NaN,
  \<open>+Infinity\<close> (respectively \<open>-Infinity\<close>) on no argument.
\<close>

definition math_min :: "jsnum list \<Rightarrow> jsnum" where
  "math_min xs =
     (if NaN \<in> set xs then NaN else foldr (\<lambda>a b. if nlt a b then a else b) xs PInf)"

definition math_max :: "jsnum list \<Rightarrow> jsnum" where
  "math_max xs =
     (if NaN \<in> set xs then NaN else foldr (\<lambda>a b. if nlt b a then a else b) xs NInf)"

subsection \<open>Strings to numbers\<close>

text \<open>
  \<^verbatim>\<open>Number(s)\<close> on a string: white space is trimmed, the empty string is \<open>0\<close>, then a
  signed decimal literal (with \<^verbatim>\<open>Infinity\<close>, a fraction and an exponent) or an unsigned
  binary, octal or hexadecimal integer literal; anything else is NaN. Strings are byte
  strings here, so only the ASCII white space characters are trimmed (the program also
  trims the white space beyond ASCII, such as U+00A0), and a literal is read as the
  exact real it denotes (the program rounds it, to \<open>0\<close> or to an infinity when it is
  out of range).
\<close>

definition is_ws :: "char \<Rightarrow> bool" where
  "is_ws c = (c \<in> set [CHR 0x09, CHR 0x0A, CHR 0x0B, CHR 0x0C, CHR 0x0D, CHR 0x20])"

definition trim_ws :: "string \<Rightarrow> string" where
  "trim_ws s = rev (dropWhile is_ws (rev (dropWhile is_ws s)))"

definition digit_of :: "nat \<Rightarrow> char \<Rightarrow> nat option" where
  "digit_of base c =
     (let k = (of_char c :: nat);
          d = (if 48 \<le> k \<and> k \<le> 57 then Some (k - 48)
               else if 97 \<le> k \<and> k \<le> 102 then Some (k - 87)
               else if 65 \<le> k \<and> k \<le> 70 then Some (k - 55)
               else None)
      in case d of None \<Rightarrow> None | Some v \<Rightarrow> (if v < base then Some v else None))"

definition is_digit :: "nat \<Rightarrow> char \<Rightarrow> bool" where
  "is_digit base c = (digit_of base c \<noteq> None)"

definition digits_value :: "nat \<Rightarrow> string \<Rightarrow> nat" where
  "digits_value base s = foldl (\<lambda>acc c. acc * base + (case digit_of base c of None \<Rightarrow> 0 | Some v \<Rightarrow> v)) 0 s"

definition all_digits :: "nat \<Rightarrow> string \<Rightarrow> bool" where
  "all_digits base s = (s \<noteq> [] \<and> list_all (is_digit base) s)"

definition exponent_part :: "string \<Rightarrow> int option" where
  "exponent_part s =
     (case s of
        [] \<Rightarrow> Some 0
      | c # r \<Rightarrow>
          if c = CHR ''e'' \<or> c = CHR ''E'' then
            (case r of
               [] \<Rightarrow> None
             | d # r' \<Rightarrow>
                 if d = CHR ''-'' then
                   (if all_digits 10 r' then Some (- int (digits_value 10 r')) else None)
                 else if d = CHR ''+'' then
                   (if all_digits 10 r' then Some (int (digits_value 10 r')) else None)
                 else (if all_digits 10 r then Some (int (digits_value 10 r)) else None))
          else None)"

definition pow10 :: "int \<Rightarrow> real" where
  "pow10 e = (if 0 \<le> e then 10 ^ nat e else 1 / 10 ^ nat (- e))"

definition str_unsigned_decimal :: "string \<Rightarrow> jsnum" where
  "str_unsigned_decimal s =
     (if s = ''Infinity'' then PInf
      else
        (let ip = takeWhile (is_digit 10) s;
             r1 = dropWhile (is_digit 10) s;
             fp = (case r1 of
                     [] \<Rightarrow> []
                   | c # t \<Rightarrow> if c = CHR ''.'' then takeWhile (is_digit 10) t else []);
             r2 = (case r1 of
                     [] \<Rightarrow> []
                   | c # t \<Rightarrow> if c = CHR ''.'' then dropWhile (is_digit 10) t else r1)
         in if ip = [] \<and> fp = [] then NaN
            else (case exponent_part r2 of
                    None \<Rightarrow> NaN
                  | Some e \<Rightarrow>
                      Fin ((real (digits_value 10 ip)
                            + real (digits_value 10 fp) / 10 ^ length fp) * pow10 e))))"

definition str_decimal :: "string \<Rightarrow> jsnum" where
  "str_decimal s =
     (case s of
        [] \<Rightarrow> NaN
      | c # r \<Rightarrow>
          if c = CHR ''-'' then nneg (str_unsigned_decimal r)
          else if c = CHR ''+'' then str_unsigned_decimal r
          else str_unsigned_decimal s)"

definition non_decimal :: "string \<Rightarrow> jsnum option" where
  "non_decimal s =
     (case s of
        c # p # r \<Rightarrow>
          if c = CHR ''0'' \<and> (p = CHR ''x'' \<or> p = CHR ''X'') then
            Some (if all_digits 16 r then Fin (real (digits_value 16 r)) else NaN)
          else if c = CHR ''0'' \<and> (p = CHR ''o'' \<or> p = CHR ''O'') then
            Some (if all_digits 8 r then Fin (real (digits_value 8 r)) else NaN)
          else if c = CHR ''0'' \<and> (p = CHR ''b'' \<or> p = CHR ''B'') then
            Some (if all_digits 2 r then Fin (real (digits_value 2 r)) else NaN)
          else None
      | _ \<Rightarrow> None)"

definition string_to_number :: "string \<Rightarrow> jsnum" where
  "string_to_number s =
     (let t = trim_ws s
      in if t = [] then Fin 0
         else (case non_decimal t of Some n \<Rightarrow> n | None \<Rightarrow> str_decimal t))"

subsection \<open>Values\<close>

text \<open>
  The values that reach the script from the backend bridge are JSON scalars, and a
  property that is missing reads as \<^verbatim>\<open>undefined\<close>.
\<close>

datatype jsval = Undefined | Null | Bool bool | Num jsnum | Str string

fun truthy :: "jsval \<Rightarrow> bool" where
  "truthy Undefined = False"
| "truthy Null = False"
| "truthy (Bool b) = b"
| "truthy (Num n) = (n \<noteq> NaN \<and> n \<noteq> Fin 0)"
| "truthy (Str s) = (s \<noteq> [])"

text \<open>\<^verbatim>\<open>a || b\<close>\<close>

definition js_or :: "jsval \<Rightarrow> jsval \<Rightarrow> jsval" where
  "js_or a b = (if truthy a then a else b)"

text \<open>\<^verbatim>\<open>v == null\<close>, and \<^verbatim>\<open>a ?? b\<close>\<close>

fun nullish :: "jsval \<Rightarrow> bool" where
  "nullish Undefined = True"
| "nullish Null = True"
| "nullish _ = False"

definition js_coalesce :: "jsval \<Rightarrow> jsval \<Rightarrow> jsval" where
  "js_coalesce a b = (if nullish a then b else a)"

text \<open>\<^verbatim>\<open>Number(v)\<close>\<close>

fun to_number :: "jsval \<Rightarrow> jsnum" where
  "to_number Undefined = NaN"
| "to_number Null = Fin 0"
| "to_number (Bool b) = (if b then Fin 1 else Fin 0)"
| "to_number (Num n) = n"
| "to_number (Str s) = string_to_number s"

section \<open>The equity chart\<close>

text \<open>
  \<^verbatim>\<open>drawEquityCurve(points)\<close> paints on the canvas \<^verbatim>\<open>equity-canvas\<close>. The canvas is
  \<open>None\<close> when the element or its 2-D context is missing. Of the canvas the function
  reads the bounding rectangle and the window's device pixel ratio; what it does is the
  list of the calls it makes on the context, in order.
\<close>

record point =
  equity :: jsval

record canvas =
  rect_width :: real
  rect_height :: real
  devicePixelRatio :: jsval

datatype draw_op =
    SetWidth jsnum
  | SetHeight jsnum
  | SetTransform jsnum jsnum jsnum jsnum jsnum jsnum
  | ClearRect jsnum jsnum jsnum jsnum
  | GlobalAlpha real
  | Font string
  | FillStyle string
  | StrokeStyle string
  | LineWidth real
  | FillText string jsnum jsnum
  | BeginPath
  | MoveTo jsnum jsnum
  | LineTo jsnum jsnum
  | Stroke
  | ClosePath
  | Fill

definition pad :: real where
  "pad = 14"

text \<open>\<^verbatim>\<open>const ys = points.map(p => Number(p.equity || 0))\<close>\<close>

definition equity_ys :: "point list \<Rightarrow> jsnum list" where
  "equity_ys points = map (\<lambda>p. to_number (js_or (equity p) (Num (Fin 0)))) points"

text \<open>The pair \<open>(minY, maxY)\<close> after the guard \<^verbatim>\<open>if (minY === maxY) { maxY = minY + 1; }\<close>\<close>

definition y_range :: "jsnum list \<Rightarrow> jsnum \<times> jsnum" where
  "y_range ys =
     (let minY = math_min ys; maxY = math_max ys
      in if strict_eq minY maxY then (minY, nadd minY (Fin 1)) else (minY, maxY))"

text \<open>\<^verbatim>\<open>xAt(i)\<close>, with \<open>n\<close> for \<^verbatim>\<open>points.length\<close>\<close>

definition xAt :: "nat \<Rightarrow> real \<Rightarrow> nat \<Rightarrow> jsnum" where
  "xAt n innerW i =
     nadd (Fin pad) (nmul (ndiv (Fin (real i)) (Fin (real n - 1))) (Fin innerW))"

text \<open>\<^verbatim>\<open>yAt(val)\<close>, with the pair \<open>(minY, maxY)\<close>\<close>

definition yAt :: "jsnum \<times> jsnum \<Rightarrow> real \<Rightarrow> jsnum \<Rightarrow> jsnum" where
  "yAt rng innerH val =
     (let t = ndiv (nsub val (fst rng)) (nsub (snd rng) (fst rng))
      in nadd (Fin pad) (nmul (nsub (Fin 1) t) (Fin innerH)))"

text \<open>Resizing the backing buffer and clearing it: lines 72 to 82.\<close>

definition setup_ops :: "canvas \<Rightarrow> draw_op list" where
  "setup_ops c =
     (let dpr = to_number (js_or (devicePixelRatio c) (Num (Fin 1)))
      in [SetWidth (nfloor (nmul (Fin (rect_width c)) dpr)),
          SetHeight (nfloor (nmul (Fin (rect_height c)) dpr)),
          SetTransform dpr (Fin 0) (Fin 0) dpr (Fin 0) (Fin 0),
          ClearRect (Fin 0) (Fin 0) (Fin (rect_width c)) (Fin (rect_height c))])"

definition no_data_ops :: "draw_op list" where
  "no_data_ops =
     [GlobalAlpha 0.9,
      Font ''700 14px system-ui'',
      FillStyle ''rgba(233,238,247,.70)'',
      FillText ''Equity curve will appear here once KAQT records daily snapshots.''
        (Fin 14) (Fin 32)]"

definition grid_ops :: "real \<Rightarrow> real \<Rightarrow> draw_op list" where
  "grid_ops innerW innerH =
     [StrokeStyle ''rgba(255,255,255,.06)'', LineWidth 1] @
     concat (map (\<lambda>i. [BeginPath,
                        MoveTo (Fin pad) (Fin (pad + (real i / 4) * innerH)),
                        LineTo (Fin (pad + innerW)) (Fin (pad + (real i / 4) * innerH)),
                        Stroke])
                 [0..<5])"

definition line_ops :: "real \<Rightarrow> real \<Rightarrow> nat \<Rightarrow> jsnum list \<Rightarrow> draw_op list" where
  "line_ops innerW innerH n ys =
     (let rng = y_range ys
      in [StrokeStyle ''rgba(81,214,138,.95)'', LineWidth 2, BeginPath,
          MoveTo (xAt n innerW 0) (yAt rng innerH (ys ! 0))] @
         map (\<lambda>i. LineTo (xAt n innerW i) (yAt rng innerH (ys ! i))) [1..<length ys] @
         [Stroke])"

definition fill_ops :: "real \<Rightarrow> real \<Rightarrow> nat \<Rightarrow> jsnum list \<Rightarrow> draw_op list" where
  "fill_ops innerW innerH n ys =
     [FillStyle ''rgba(81,214,138,.12)'',
      LineTo (xAt n innerW (length ys - 1)) (Fin (pad + innerH)),
      LineTo (xAt n innerW 0) (Fin (pad + innerH)),
      ClosePath,
      Fill]"

definition drawEquityCurve :: "canvas option \<Rightarrow> point list option \<Rightarrow> draw_op list" where
  "drawEquityCurve cv points =
     (case cv of
        None \<Rightarrow> []
      | Some c \<Rightarrow>
          (case points of
             None \<Rightarrow> setup_ops c @ no_data_ops
           | Some ps \<Rightarrow>
               if length ps < 2 then setup_ops c @ no_data_ops
               else
                 (let ys = equity_ys ps;
                      innerW = rect_width c - pad * 2;
                      innerH = rect_height c - pad * 2
                  in setup_ops c @ grid_ops innerW innerH @
                     line_ops innerW innerH (length ps) ys @
                     fill_ops innerW innerH (length ps) ys)))"

text \<open>
  The paths a list of calls strokes, each as the list of its vertices: \<open>cur\<close> is the
  current path, which \<^verbatim>\<open>beginPath\<close> empties and \<^verbatim>\<open>moveTo\<close> and \<^verbatim>\<open>lineTo\<close> extend.
\<close>

fun stroked :: "(jsnum \<times> jsnum) list \<Rightarrow> draw_op list \<Rightarrow> (jsnum \<times> jsnum) list list" where
  "stroked cur [] = []"
| "stroked cur (BeginPath # ops) = stroked [] ops"
| "stroked cur (MoveTo x y # ops) = stroked (cur @ [(x, y)]) ops"
| "stroked cur (LineTo x y # ops) = stroked (cur @ [(x, y)]) ops"
| "stroked cur (Stroke # ops) = cur # stroked cur ops"
| "stroked cur (_ # ops) = stroked cur ops"

text \<open>The current path after a list of calls.\<close>

fun path_after :: "(jsnum \<times> jsnum) list \<Rightarrow> draw_op list \<Rightarrow> (jsnum \<times> jsnum) list" where
  "path_after cur [] = cur"
| "path_after cur (BeginPath # ops) = path_after [] ops"
| "path_after cur (MoveTo x y # ops) = path_after (cur @ [(x, y)]) ops"
| "path_after cur (LineTo x y # ops) = path_after (cur @ [(x, y)]) ops"
| "path_after cur (_ # ops) = path_after cur ops"

text \<open>The calls that build, stroke or fill a path.\<close>

fun draws_shape :: "draw_op \<Rightarrow> bool" where
  "draws_shape BeginPath = True"
| "draws_shape (MoveTo x y) = True"
| "draws_shape (LineTo x y) = True"
| "draws_shape Stroke = True"
| "draws_shape ClosePath = True"
| "draws_shape Fill = True"
| "draws_shape _ = False"

section \<open>Rendered text\<close>

text \<open>
  What the script writes into the page is text. The characters the script itself
  supplies are literal; the strings the platform computes from a number (its decimal
  form, \<^verbatim>\<open>toFixed\<close>, the currency and date forms of \<^verbatim>\<open>toLocaleString\<close>, which depend
  on the locale) are kept as calls on the number. \<open>Currency mn mx n\<close> is the currency
  form of \<open>n\<close> with at least \<open>mn\<close> and at most \<open>mx\<close> fraction digits.
\<close>

datatype piece =
    Lit string
  | NumStr jsnum
  | Fixed nat jsnum
  | Currency nat nat jsnum
  | LocalTime jsnum

type_synonym content = "piece list"

text \<open>The em dash U+2014 and the triangles U+25B2 and U+25BC, in UTF-8.\<close>

definition em_dash :: string where
  "em_dash = [CHR 0xE2, CHR 0x80, CHR 0x94]"

definition tri_up :: string where
  "tri_up = [CHR 0xE2, CHR 0x96, CHR 0xB2]"

definition tri_down :: string where
  "tri_down = [CHR 0xE2, CHR 0x96, CHR 0xBC]"

text \<open>\<^verbatim>\<open>String(v)\<close>, also what a template literal and \<^verbatim>\<open>textContent\<close> make of a value.\<close>

fun to_string :: "jsval \<Rightarrow> content" where
  "to_string Undefined = [Lit ''undefined'']"
| "to_string Null = [Lit ''null'']"
| "to_string (Bool b) = [Lit (if b then ''true'' else ''false'')]"
| "to_string (Num n) = [NumStr n]"
| "to_string (Str s) = [Lit s]"

text \<open>An exception of the platform.\<close>

datatype js_error = RangeError

text \<open>
  The fraction digits of a number format of style \<^verbatim>\<open>currency\<close> for \<^verbatim>\<open>USD\<close>, from the
  options \<^verbatim>\<open>minimumFractionDigits\<close> and \<^verbatim>\<open>maximumFractionDigits\<close>, each \<open>None\<close> when it
  is not given: the operation SetNumberFormatDigitOptions of ECMA-402 in its current
  edition, with the two digits of the dollar as both defaults. An option above 100 is
  refused, a missing minimum is the default lowered to the maximum, a missing maximum
  the default raised to the minimum, and a minimum above the maximum is refused. (An
  engine built to an early edition takes a missing minimum to be the default itself
  and refuses a maximum below it.)
\<close>

definition currency_digits :: "nat option \<Rightarrow> nat option \<Rightarrow> js_error + nat \<times> nat" where
  "currency_digits mnfd mxfd =
     (case mnfd of
        None \<Rightarrow>
          (case mxfd of
             None \<Rightarrow> Inr (2, 2)
           | Some mx \<Rightarrow> if 100 < mx then Inl RangeError else Inr (min 2 mx, mx))
      | Some mn \<Rightarrow>
          if 100 < mn then Inl RangeError
          else
            (case mxfd of
               None \<Rightarrow> Inr (mn, max 2 mn)
             | Some mx \<Rightarrow>
                 if 100 < mx then Inl RangeError
                 else if mx < mn then Inl RangeError
                 else Inr (mn, mx)))"

text \<open>
  \<^verbatim>\<open>n.toLocaleString(undefined, {style: 'currency', currency: 'USD',
  maximumFractionDigits: mxfd})\<close>: the text, or the exception thrown.
\<close>

definition toLocaleString_currency :: "nat \<Rightarrow> jsnum \<Rightarrow> js_error + content" where
  "toLocaleString_currency mxfd n =
     (case currency_digits None (Some mxfd) of
        Inl e \<Rightarrow> Inl e
      | Inr d \<Rightarrow> Inr [Currency (fst d) (snd d) n])"

definition fmtUSD :: "jsval \<Rightarrow> js_error + content" where
  "fmtUSD x = (let n = to_number (js_or x (Num (Fin 0))) in toLocaleString_currency 0 n)"

definition fmtUSD2 :: "jsval \<Rightarrow> js_error + content" where
  "fmtUSD2 x = (let n = to_number (js_or x (Num (Fin 0))) in toLocaleString_currency 2 n)"

section \<open>The tables\<close>

record position =
  p_symbol :: jsval
  p_quantity :: jsval
  p_size :: jsval
  p_avg_price :: jsval
  p_avgPrice :: jsval
  p_avgCost :: jsval

record trade =
  t_timestamp :: jsval
  t_symbol :: jsval
  t_side :: jsval
  t_quantity :: jsval
  t_qty :: jsval
  t_price :: jsval

text \<open>
  A table row: the placeholder row with its column span and message, or the contents of
  the cells of a data row.
\<close>

datatype row = Placeholder nat string | Cells "content list"


text \<open>The quantity and the side of a position: lines 158 and 159.\<close>

definition position_qty :: "position \<Rightarrow> jsnum" where
  "position_qty p = to_number (js_coalesce (js_coalesce (p_quantity p) (p_size p)) (Num (Fin 0)))"

definition position_side :: "position \<Rightarrow> string" where
  "position_side p =
     (let qty = position_qty p
      in if nlt (Fin 0) qty then ''LONG'' else if nlt qty (Fin 0) then ''SHORT'' else ''FLAT'')"

definition position_avg :: "position \<Rightarrow> jsnum" where
  "position_avg p =
     to_number (js_coalesce (js_coalesce (js_coalesce (p_avg_price p) (p_avgPrice p)) (p_avgCost p))
                  (Num (Fin 0)))"

definition position_row :: "position \<Rightarrow> row" where
  "position_row p =
     Cells [to_string (js_or (p_symbol p) (Str ''?'')),
            [Lit (position_side p)],
            [NumStr (nabs (position_qty p))],
            (if truthy (Num (position_avg p)) then [Fixed 2 (position_avg p)] else [Lit em_dash])]"

text \<open>
  \<^verbatim>\<open>renderPositions(list)\<close>: the new content of \<^verbatim>\<open>positions-body\<close>, which is \<open>None\<close>
  when the element is missing. The list is \<open>None\<close> when it is \<^verbatim>\<open>null\<close> or
  \<^verbatim>\<open>undefined\<close>.
\<close>

definition renderPositions :: "position list option \<Rightarrow> row list option \<Rightarrow> row list option" where
  "renderPositions list body =
     (case body of
        None \<Rightarrow> None
      | Some _ \<Rightarrow>
          (case list of
             None \<Rightarrow> Some [Placeholder 4 ''No open positions.'']
           | Some ps \<Rightarrow>
               if length ps = 0 then Some [Placeholder 4 ''No open positions.'']
               else Some (map position_row ps)))"

text \<open>\<^verbatim>\<open>xs.slice(start)\<close>\<close>

definition js_slice :: "int \<Rightarrow> 'a list \<Rightarrow> 'a list" where
  "js_slice start xs =
     (let len = int (length xs);
          k = (if start < 0 then max (len + start) 0 else min start len)
      in drop (nat k) xs)"

text \<open>A row of the trade table; \<open>now\<close> is \<^verbatim>\<open>Date.now()\<close>, in milliseconds.\<close>

definition trade_row :: "real \<Rightarrow> trade \<Rightarrow> row" where
  "trade_row now t =
     (let ts = to_number (js_or (t_timestamp t) (Num (Fin (now / 1000))))
      in Cells [[LocalTime (nmul ts (Fin 1000))],
                to_string (js_or (t_symbol t) (Str ''?'')),
                to_string (js_or (t_side t) (Str ''?'')),
                to_string (js_coalesce (js_coalesce (t_quantity t) (t_qty t)) (Str em_dash)),
                (if truthy (t_price t) then [Fixed 2 (to_number (t_price t))] else [Lit em_dash])])"

definition renderTrades :: "real \<Rightarrow> trade list option \<Rightarrow> row list option \<Rightarrow> row list option" where
  "renderTrades now list body =
     (case body of
        None \<Rightarrow> None
      | Some _ \<Rightarrow>
          (case list of
             None \<Rightarrow> Some [Placeholder 5 ''No trades yet.'']
           | Some ts \<Rightarrow>
               if length ts = 0 then Some [Placeholder 5 ''No trades yet.'']
               else Some (map (trade_row now) (rev (js_slice (- 50) ts)))))"

section \<open>The backend bridge and the page\<close>

record status =
  s_cash :: jsval
  s_account_balance :: jsval
  s_equity_pct :: jsval
  s_last_decision_human :: jsval
  s_engine_active :: jsval
  s_connection_status :: jsval
  s_signal_state :: jsval
  s_next_run_human :: jsval
  s_current_symbol :: jsval
  s_current_size :: jsval
  s_current_avg_price :: jsval
  s_live_return :: jsval
  s_live_max_dd :: jsval

record response =
  r_message :: jsval
  r_ok :: jsval

record broker_payload =
  broker :: string
  mode :: string
  account_id :: string
  ibkr_host :: string
  ibkr_port :: jsnum
  ibkr_client_id :: jsnum

text \<open>A call on the bridge is asynchronous: its promise resolves to a value or rejects.\<close>

datatype 'a reply = Rejects | Resolves 'a

text \<open>
  \<^verbatim>\<open>window.pywebview.api\<close>, over a backend of state \<open>'b\<close>. The four queries read the
  state; the commands answer and change it.
\<close>

record 'b api =
  get_status :: "'b \<Rightarrow> status reply"
  get_positions :: "'b \<Rightarrow> position list option reply"
  get_trades :: "'b \<Rightarrow> trade list option reply"
  get_equity_curve :: "'b \<Rightarrow> point list option reply"
  start_engine :: "'b \<Rightarrow> response reply \<times> 'b"
  stop_engine :: "'b \<Rightarrow> response reply \<times> 'b"
  save_broker_config :: "broker_payload \<Rightarrow> 'b \<Rightarrow> response reply \<times> 'b"
  test_broker_connection :: "'b \<Rightarrow> response reply \<times> 'b"
  set_scheduler_time :: "jsnum \<Rightarrow> jsnum \<Rightarrow> 'b \<Rightarrow> response reply \<times> 'b"

datatype api_call =
    GetStatus
  | GetPositions
  | GetTrades
  | GetEquityCurve
  | StartEngine
  | StopEngine
  | SaveBrokerConfig broker_payload
  | TestBrokerConnection
  | SetSchedulerTime jsnum jsnum

datatype event = Call api_call | Alert content

text \<open>The four queries, as against the commands.\<close>

fun is_query :: "event \<Rightarrow> bool" where
  "is_query (Call GetStatus) = True"
| "is_query (Call GetPositions) = True"
| "is_query (Call GetTrades) = True"
| "is_query (Call GetEquityCurve) = True"
| "is_query _ = False"

text \<open>A log without its queries: the commands sent and the alerts shown.\<close>

definition without_queries :: "event list \<Rightarrow> event list" where
  "without_queries evs = filter (\<lambda>e. \<not> is_query e) evs"

datatype dot = Plain | Green | Red

text \<open>
  The page and what surrounds it. \<open>pywebview\<close> is \<^verbatim>\<open>window.pywebview\<close>: \<open>None\<close> when
  it is missing, \<open>Some None\<close> when it has no \<^verbatim>\<open>api\<close>. The elements the script guards
  against (the dots, the start buttons, the table bodies, the canvas) are optional; the
  elements it reads and writes without a guard are taken to exist, \<open>texts\<close> giving the
  \<^verbatim>\<open>textContent\<close> and \<open>inputs\<close> the \<^verbatim>\<open>value\<close> of each by its id. \<open>log\<close> lists the
  calls made on the bridge and the alerts shown, in order, and \<open>painted\<close> the calls made
  on the canvas context.
\<close>

record 'b world =
  pywebview :: "'b api option option"
  backend :: 'b
  clock :: real
  texts :: "string \<Rightarrow> content"
  inputs :: "string \<Rightarrow> string"
  engine_dot :: "dot option"
  engine_dot_2 :: "dot option"
  btn_start :: "bool option"
  btn_start_2 :: "bool option"
  positions_body :: "row list option"
  trades_body :: "row list option"
  equity_canvas :: "canvas option"
  painted :: "draw_op list"
  log :: "event list"

text \<open>What a run of an asynchronous function leaves: the page, and whether it threw.\<close>

datatype 'w outcome = Done 'w | Threw 'w

fun final :: "'w outcome \<Rightarrow> 'w" where
  "final (Done w) = w"
| "final (Threw w) = w"

text \<open>\<^verbatim>\<open>const backendReady = () => window.pywebview && window.pywebview.api\<close>\<close>

definition backendReady :: "'b world \<Rightarrow> 'b api option" where
  "backendReady w = (case pywebview w of None \<Rightarrow> None | Some a \<Rightarrow> a)"

definition setDot :: "dot option \<Rightarrow> bool \<Rightarrow> dot option" where
  "setDot el on = (case el of None \<Rightarrow> None | Some _ \<Rightarrow> Some (if on then Green else Red))"

text \<open>
  A statement of lines 207 to 249 of \<^verbatim>\<open>refreshAll\<close>: it sets the \<^verbatim>\<open>textContent\<close> of an
  element, colours one of the two dots, or locks the start buttons.
\<close>

datatype update =
    SetText string content
  | SetEngineDot bool
  | SetEngineDot2 bool
  | DisableStart bool

text \<open>An assignment of a text that a formatter computes, or the exception it throws.\<close>

definition set_text :: "string \<Rightarrow> js_error + content \<Rightarrow> js_error + update" where
  "set_text k r = (case r of Inl e \<Rightarrow> Inl e | Inr c \<Rightarrow> Inr (SetText k c))"

text \<open>The statements of lines 207 to 249, in order, for the status \<open>s\<close>.\<close>

definition status_steps :: "status \<Rightarrow> (js_error + update) list" where
  "status_steps s =
     (let pct = to_number (js_coalesce (s_equity_pct s) (Num (Fin 0)))
      in [set_text ''top-cash'' (fmtUSD (js_or (s_cash s) (Num (Fin 0)))),
          set_text ''top-equity'' (fmtUSD (js_or (s_account_balance s) (Num (Fin 0)))),
          Inr (SetText ''top-equity-pct''
             (if is_finite pct \<and> \<not> strict_eq pct (Fin 0)
              then [Lit (if nlt (Fin 0) pct then tri_up else tri_down), Lit '' '',
                    Fixed 2 (nmul pct (Fin 100)), Lit ''%'']
              else [Lit em_dash])),
          Inr (SetText ''top-last-decision''
             (to_string (js_or (s_last_decision_human s) (Str em_dash)))),
          Inr (SetText ''top-engine''
             [Lit (if truthy (s_engine_active s) then ''ACTIVE'' else ''INACTIVE'')]),
          Inr (SetEngineDot (truthy (s_engine_active s))),
          Inr (SetText ''conn-status'' (to_string (js_or (s_connection_status s) (Str em_dash)))),
          set_text ''snap-cash'' (fmtUSD2 (js_or (s_cash s) (Num (Fin 0)))),
          set_text ''snap-equity'' (fmtUSD2 (js_or (s_account_balance s) (Num (Fin 0)))),
          Inr (SetText ''snap-signal'' (to_string (js_or (s_signal_state s) (Str em_dash)))),
          Inr (SetText ''snap-last'' (to_string (js_or (s_last_decision_human s) (Str em_dash)))),
          Inr (SetText ''engine-status-text''
             [Lit (if truthy (s_engine_active s) then ''ACTIVE'' else ''INACTIVE'')]),
          Inr (SetEngineDot2 (truthy (s_engine_active s))),
          Inr (SetText ''engine-next-run'' (to_string (js_or (s_next_run_human s) (Str em_dash)))),
          Inr (SetText ''engine-signal'' (to_string (js_or (s_signal_state s) (Str em_dash)))),
          Inr (SetText ''engine-status-2''
             [Lit (if truthy (s_engine_active s) then ''ACTIVE'' else ''INACTIVE'')]),
          Inr (SetText ''engine-signal-2'' (to_string (js_or (s_signal_state s) (Str em_dash)))),
          Inr (SetText ''engine-last-2''
             (to_string (js_or (s_last_decision_human s) (Str em_dash)))),
          Inr (SetText ''engine-next-2'' (to_string (js_or (s_next_run_human s) (Str em_dash)))),
          Inr (DisableStart (truthy (s_engine_active s))),
          Inr (SetText ''pos-symbol'' (to_string (js_or (s_current_symbol s) (Str em_dash)))),
          Inr (SetText ''pos-size''
             (if \<not> nullish (s_current_size s) then to_string (s_current_size s)
              else [Lit em_dash])),
          Inr (SetText ''pos-avg''
             (if truthy (s_current_avg_price s)
              then [Lit ''$'', Fixed 2 (to_number (s_current_avg_price s))]
              else [Lit em_dash])),
          Inr (SetText ''pos-exposure''
             [Lit (if s_signal_state s = Str ''LONG'' then ''LONG (100%)'' else ''FLAT (0%)'')]),
          set_text ''pos-cash'' (fmtUSD2 (js_or (s_cash s) (Num (Fin 0)))),
          Inr (SetText ''mini-return''
             (if \<not> nullish (s_live_return s)
              then [Fixed 2 (nmul (to_number (s_live_return s)) (Fin 100)), Lit ''%'']
              else [Lit em_dash])),
          Inr (SetText ''mini-mdd''
             (if \<not> nullish (s_live_max_dd s)
              then [Fixed 2 (nmul (to_number (s_live_max_dd s)) (Fin 100)), Lit ''%'']
              else [Lit em_dash])),
          Inr (SetText ''mini-exposure'' (to_string (js_or (s_signal_state s) (Str em_dash))))])"

fun apply_update :: "update \<Rightarrow> 'b world \<Rightarrow> 'b world" where
  "apply_update (SetText k c) w = w\<lparr>texts := (texts w)(k := c)\<rparr>"
| "apply_update (SetEngineDot on) w = w\<lparr>engine_dot := setDot (engine_dot w) on\<rparr>"
| "apply_update (SetEngineDot2 on) w = w\<lparr>engine_dot_2 := setDot (engine_dot_2 w) on\<rparr>"
| "apply_update (DisableStart b) w =
     w\<lparr>btn_start := map_option (\<lambda>_. b) (btn_start w),
       btn_start_2 := map_option (\<lambda>_. b) (btn_start_2 w)\<rparr>"

text \<open>The statements run in order; the first exception ends the run.\<close>

fun run_steps :: "(js_error + update) list \<Rightarrow> 'b world \<Rightarrow> 'b world outcome" where
  "run_steps [] w = Done w"
| "run_steps (Inl e # steps) w = Threw w"
| "run_steps (Inr u # steps) w = run_steps steps (apply_update u w)"

text \<open>Lines 207 to 249, for the status \<open>s\<close>.\<close>

definition show_status :: "status \<Rightarrow> 'b world \<Rightarrow> 'b world outcome" where
  "show_status s w = run_steps (status_steps s) w"

definition logged :: "event \<Rightarrow> 'b world \<Rightarrow> 'b world" where
  "logged e w = w\<lparr>log := log w @ [e]\<rparr>"

text \<open>\<^verbatim>\<open>refreshAll()\<close>, lines 201 to 260.\<close>

definition refreshAll :: "'b world \<Rightarrow> 'b world outcome" where
  "refreshAll w =
     (case backendReady w of
        None \<Rightarrow> Done w
      | Some a \<Rightarrow>
          (let w1 = logged (Call GetStatus) w
           in case get_status a (backend w) of
                Rejects \<Rightarrow> Threw w1
              | Resolves s \<Rightarrow>
                  (case show_status s w1 of
                     Threw w' \<Rightarrow> Threw w'
                   | Done w' \<Rightarrow>
                       (let w2 = logged (Call GetPositions) w'
                        in case get_positions a (backend w) of
                             Rejects \<Rightarrow> Threw w2
                           | Resolves pos \<Rightarrow>
                               (let w3 = logged (Call GetTrades) w2
                                in case get_trades a (backend w) of
                                     Rejects \<Rightarrow> Threw w3
                                   | Resolves trd \<Rightarrow>
                                       (let w4 = logged (Call GetEquityCurve)
                                                   (w3\<lparr>positions_body :=
                                                         renderPositions pos (positions_body w3),
                                                       trades_body :=
                                                         renderTrades (clock w3) trd
                                                           (trades_body w3)\<rparr>)
                                        in case get_equity_curve a (backend w) of
                                             Rejects \<Rightarrow> Threw w4
                                           | Resolves curve \<Rightarrow>
                                               Done (w4\<lparr>painted := painted w4 @
                                                     drawEquityCurve (equity_canvas w4)
                                                       curve\<rparr>)))))))"

section \<open>The commands\<close>

text \<open>\<^verbatim>\<open>startEngine()\<close> and \<^verbatim>\<open>stopEngine()\<close>, lines 265 to 277.\<close>

definition startEngine :: "'b world \<Rightarrow> 'b world outcome" where
  "startEngine w =
     (case backendReady w of
        None \<Rightarrow> Done (logged (Alert [Lit ''Backend not ready.'']) w)
      | Some a \<Rightarrow>
          (let w1 = logged (Call StartEngine) (w\<lparr>backend := snd (start_engine a (backend w))\<rparr>)
           in case fst (start_engine a (backend w)) of
                Rejects \<Rightarrow> Threw w1
              | Resolves r \<Rightarrow>
                  refreshAll
                    (logged (Alert (to_string (js_or (r_message r)
                        (Str (if truthy (r_ok r) then ''Engine started'' else ''Failed''))))) w1)))"

definition stopEngine :: "'b world \<Rightarrow> 'b world outcome" where
  "stopEngine w =
     (case backendReady w of
        None \<Rightarrow> Done (logged (Alert [Lit ''Backend not ready.'']) w)
      | Some a \<Rightarrow>
          (let w1 = logged (Call StopEngine) (w\<lparr>backend := snd (stop_engine a (backend w))\<rparr>)
           in case fst (stop_engine a (backend w)) of
                Rejects \<Rightarrow> Threw w1
              | Resolves r \<Rightarrow>
                  refreshAll
                    (logged (Alert (to_string (js_or (r_message r)
                        (Str (if truthy (r_ok r) then ''Engine stopped'' else ''Failed''))))) w1)))"

text \<open>
  The click handlers of \<^verbatim>\<open>btn-save-conn\<close>, \<^verbatim>\<open>btn-test-conn\<close> and \<^verbatim>\<open>btn-save-sched\<close>,
  lines 285 to 311. They read \<^verbatim>\<open>window.pywebview.api\<close> without asking
  \<^verbatim>\<open>backendReady()\<close>, so a missing bridge throws.
\<close>

definition conn_payload :: "'b world \<Rightarrow> broker_payload" where
  "conn_payload w =
     \<lparr>broker = ''ibkr'',
      mode = inputs w ''ibkr-mode'',
      account_id = trim_ws (inputs w ''ibkr-account''),
      ibkr_host = trim_ws (inputs w ''ibkr-host''),
      ibkr_port = to_number (js_or (Str (inputs w ''ibkr-port'')) (Num (Fin 0))),
      ibkr_client_id = to_number (js_or (Str (inputs w ''ibkr-client-id'')) (Num (Fin 0)))\<rparr>"

definition save_conn_click :: "'b world \<Rightarrow> 'b world outcome" where
  "save_conn_click w =
     (case backendReady w of
        None \<Rightarrow> Threw w
      | Some a \<Rightarrow>
          (let payload = conn_payload w;
               w1 = logged (Call (SaveBrokerConfig payload))
                      (w\<lparr>backend := snd (save_broker_config a payload (backend w))\<rparr>)
           in case fst (save_broker_config a payload (backend w)) of
                Rejects \<Rightarrow> Threw w1
              | Resolves r \<Rightarrow>
                  Done (logged (Alert (to_string (js_or (r_message r) (Str ''Saved'')))) w1)))"

definition test_conn_click :: "'b world \<Rightarrow> 'b world outcome" where
  "test_conn_click w =
     (case backendReady w of
        None \<Rightarrow> Threw w
      | Some a \<Rightarrow>
          (let w1 = logged (Call TestBrokerConnection)
                      (w\<lparr>backend := snd (test_broker_connection a (backend w))\<rparr>)
           in case fst (test_broker_connection a (backend w)) of
                Rejects \<Rightarrow> Threw w1
              | Resolves r \<Rightarrow>
                  refreshAll
                    (logged (Alert (to_string (js_or (r_message r)
                        (Str (if truthy (r_ok r) then ''Connection OK'' else ''Failed''))))) w1)))"

definition save_sched_click :: "'b world \<Rightarrow> 'b world outcome" where
  "save_sched_click w =
     (case backendReady w of
        None \<Rightarrow> Threw w
      | Some a \<Rightarrow>
          (let hour = to_number (js_or (Str (inputs w ''sched-hour'')) (Num (Fin 0)));
               minute = to_number (js_or (Str (inputs w ''sched-minute'')) (Num (Fin 0)));
               w1 = logged (Call (SetSchedulerTime hour minute))
                      (w\<lparr>backend := snd (set_scheduler_time a hour minute (backend w))\<rparr>)
           in case fst (set_scheduler_time a hour minute (backend w)) of
                Rejects \<Rightarrow> Threw w1
              | Resolves r \<Rightarrow>
                  refreshAll
                    (logged (Alert (to_string (js_or (r_message r) (Str ''Saved'')))) w1)))"

section \<open>Sample inputs\<close>

text \<open>
  A bridge whose state is whether the engine runs, answering the status
  \<^verbatim>\<open>{cash: 1000, account_balance: 1200, equity_pct: 0.05, engine_active: ...}\<close>, and a
  page on which every guarded element exists.
\<close>

definition sample_status :: "bool \<Rightarrow> status" where
  "sample_status active =
     \<lparr>s_cash = Num (Fin 1000), s_account_balance = Num (Fin 1200),
      s_equity_pct = Num (Fin 0.05), s_last_decision_human = Undefined,
      s_engine_active = Bool active, s_connection_status = Str ''connected'',
      s_signal_state = Str ''LONG'', s_next_run_human = Undefined,
      s_current_symbol = Str ''SPY'', s_current_size = Num (Fin 0),
      s_current_avg_price = Num (Fin 0), s_live_return = Num (Fin 0),
      s_live_max_dd = Undefined\<rparr>"

definition sample_api :: "bool api" where
  "sample_api =
     \<lparr>get_status = (\<lambda>b. Resolves (sample_status b)),
      get_positions = (\<lambda>b. Resolves (Some [])),
      get_trades = (\<lambda>b. Resolves None),
      get_equity_curve = (\<lambda>b. Resolves (Some [])),
      start_engine = (\<lambda>b. (Resolves \<lparr>r_message = Undefined, r_ok = Bool True\<rparr>, True)),
      stop_engine = (\<lambda>b. (Resolves \<lparr>r_message = Str ''Engine halted'', r_ok = Bool True\<rparr>, False)),
      save_broker_config = (\<lambda>p b. (Resolves \<lparr>r_message = Undefined, r_ok = Undefined\<rparr>, b)),
      test_broker_connection = (\<lambda>b. (Resolves \<lparr>r_message = Undefined, r_ok = Bool False\<rparr>, b)),
      set_scheduler_time = (\<lambda>h m b. (Resolves \<lparr>r_message = Undefined, r_ok = Undefined\<rparr>, b))\<rparr>"

definition sample_page :: "bool api option option \<Rightarrow> bool world" where
  "sample_page bridge =
     \<lparr>pywebview = bridge, backend = False, clock = 0,
      texts = (\<lambda>_. []), inputs = (\<lambda>_. []),
      engine_dot = Some Plain, engine_dot_2 = Some Plain,
      btn_start = Some False, btn_start_2 = Some False,
      positions_body = Some [], trades_body = Some [],
      equity_canvas = Some \<lparr>rect_width = 300, rect_height = 100, devicePixelRatio = Num (Fin 1)\<rparr>,
      painted = [], log = []\<rparr>"

definition sample_trade :: "nat \<Rightarrow> trade" where
  "sample_trade i =
     \<lparr>t_timestamp = Num (Fin (real i)), t_symbol = Str ''SPY'', t_side = Str ''BUY'',
      t_quantity = Num (Fin 1), t_qty = Undefined, t_price = Num (Fin 100)\<rparr>"




section \<open>Properties of the chart\<close>

subsection \<open>Paths of the drawing\<close>

lemma stroked_append:
  "stroked cur (xs @ ys) = stroked cur xs @ stroked (path_after cur xs) ys"
  by (induction cur xs rule: stroked.induct) simp_all

lemma path_after_append:
  "path_after cur (xs @ ys) = path_after (path_after cur xs) ys"
  by (induction cur xs rule: path_after.induct) simp_all

lemma stroked_LineTos: "stroked cur (map (\<lambda>i. LineTo (f i) (g i)) js) = []"
  by (induction js arbitrary: cur) simp_all

lemma path_after_LineTos:
  "path_after cur (map (\<lambda>i. LineTo (f i) (g i)) js) = cur @ map (\<lambda>i. (f i, g i)) js"
  by (induction js arbitrary: cur) simp_all

lemma upt_5: "[0..<5] = [0, 1, 2, 3, 4]"
  by code_simp

lemma stroked_setup: "stroked cur (setup_ops c) = []"
  by (simp add: setup_ops_def Let_def)

lemma path_after_setup: "path_after cur (setup_ops c) = cur"
  by (simp add: setup_ops_def Let_def)

lemma stroked_grid:
  "stroked cur (grid_ops iw ih) =
     map (\<lambda>i. [(Fin pad, Fin (pad + (real i / 4) * ih)),
               (Fin (pad + iw), Fin (pad + (real i / 4) * ih))]) [0..<5]"
  by (simp add: grid_ops_def upt_5)

lemma stroked_line:
  "1 \<le> length ys \<Longrightarrow>
   stroked cur (line_ops iw ih n ys) =
     [map (\<lambda>i. (xAt n iw i, yAt (y_range ys) ih (ys ! i))) [0..<length ys]]"
  by (cases ys) (simp_all add: line_ops_def Let_def stroked_append path_after_append
      stroked_LineTos path_after_LineTos upt_conv_Cons del: upt_Suc)

lemma stroked_fill: "stroked cur (fill_ops iw ih n ys) = []"
  by (simp add: fill_ops_def)

text \<open>
  With two points or more, the drawing strokes the five grid lines and then one path
  through the points \<open>(xAt i, yAt (ys ! i))\<close>.
\<close>

lemma stroked_draw:
  "2 \<le> length ps \<Longrightarrow>
   stroked [] (drawEquityCurve (Some c) (Some ps)) =
     map (\<lambda>i. [(Fin pad, Fin (pad + (real i / 4) * (rect_height c - pad * 2))),
               (Fin (pad + (rect_width c - pad * 2)),
                Fin (pad + (real i / 4) * (rect_height c - pad * 2)))]) [0..<5] @
     [map (\<lambda>i. (xAt (length ps) (rect_width c - pad * 2) i,
                yAt (y_range (equity_ys ps)) (rect_height c - pad * 2) (equity_ys ps ! i)))
          [0..<length ps]]"
  by (simp add: drawEquityCurve_def Let_def stroked_append stroked_setup path_after_setup
      stroked_grid stroked_line stroked_fill equity_ys_def)

subsection \<open>The range of finite values\<close>

lemma foldr_min_Fin:
  "foldr (\<lambda>a b. if nlt a b then a else b) (map Fin vs) PInf =
     (if vs = [] then PInf else Fin (Min (set vs)))"
proof (induction vs)
  case Nil
  show ?case by simp
next
  case (Cons a vs)
  show ?case
  proof (cases "vs = []")
    case True
    then show ?thesis by simp
  next
    case False
    with Cons show ?thesis
      by (auto simp add: min_def simp del: Min_gr_iff Min_ge_iff)
  qed
qed

lemma foldr_max_Fin:
  "foldr (\<lambda>a b. if nlt b a then a else b) (map Fin vs) NInf =
     (if vs = [] then NInf else Fin (Max (set vs)))"
proof (induction vs)
  case Nil
  show ?case by simp
next
  case (Cons a vs)
  show ?case
  proof (cases "vs = []")
    case True
    then show ?thesis by simp
  next
    case False
    with Cons show ?thesis
      by (auto simp add: max_def simp del: Max_less_iff Max_le_iff)
  qed
qed

lemma math_min_Fin: "vs \<noteq> [] \<Longrightarrow> math_min (map Fin vs) = Fin (Min (set vs))"
  by (auto simp: math_min_def foldr_min_Fin)

lemma math_max_Fin: "vs \<noteq> [] \<Longrightarrow> math_max (map Fin vs) = Fin (Max (set vs))"
  by (auto simp: math_max_def foldr_max_Fin)

lemma y_range_Fin:
  "vs \<noteq> [] \<Longrightarrow>
   y_range (map Fin vs) =
     (Fin (Min (set vs)),
      Fin (if Min (set vs) = Max (set vs) then Min (set vs) + 1 else Max (set vs)))"
  by (simp add: y_range_def math_min_Fin math_max_Fin strict_eq_def Let_def)

lemma xAt_Fin: "2 \<le> n \<Longrightarrow> xAt n iw i = Fin (pad + real i / (real n - 1) * iw)"
  by (simp add: xAt_def)

lemma yAt_Fin:
  "mn \<noteq> mx \<Longrightarrow>
   yAt (Fin mn, Fin mx) ih (Fin v) = Fin (pad + (1 - (v - mn) / (mx - mn)) * ih)"
  by (simp add: yAt_def nsub_def Let_def)

lemma falsy_to_zero: "\<not> truthy e \<Longrightarrow> to_number (js_or e (Num (Fin 0))) = Fin 0"
  by (simp add: js_or_def)


lemma number_of_150: "string_to_number ''150'' = Fin 150"
  by (simp add: string_to_number_def trim_ws_def is_ws_def non_decimal_def
      str_decimal_def str_unsigned_decimal_def is_digit_def digit_of_def digits_value_def
      exponent_part_def pow10_def Let_def)

subsection \<open>Claims on the chart\<close>




text \<open>
  C2. For every series of \<open>n \<ge> 2\<close> points the curve is the path through the points
  \<open>x i = pad + (i / (n - 1)) * innerWidth\<close>,
  \<open>y i = pad + (1 - (ys ! i - minY) / (maxY - minY)) * innerHeight\<close>, computed in the
  arithmetic of JavaScript numbers, where \<open>(minY, maxY)\<close> is the range after the guard.
  When the equity values read as the finite numbers \<open>vs\<close>, these are the real numbers
  the formulas denote, \<open>minY\<close> being the least value and \<open>maxY\<close> the greatest one, or
  \<open>minY + 1\<close> when they are equal. In particular the series
  \<^verbatim>\<open>[{equity: 100}, {equity: 150}, {equity: 90}]\<close> on a 300 by 100 surface, whatever the
  pixel ratio, gives \<open>x = 14\<close> to point 0, \<open>x = 286\<close> to point 2, and the \<open>y\<close> values
  74, 14 and 86: point 1, the maximum, has the smallest.
\<close>

theorem chart_coordinate_mapping:
  "(2 \<le> length points \<longrightarrow>
      last (stroked [] (drawEquityCurve (Some c) (Some points))) =
        map (\<lambda>i. (nadd (Fin pad)
                     (nmul (ndiv (Fin (real i)) (Fin (real (length points) - 1)))
                        (Fin (rect_width c - pad * 2))),
                   nadd (Fin pad)
                     (nmul (nsub (Fin 1)
                              (ndiv (nsub (equity_ys points ! i) (fst (y_range (equity_ys points))))
                                 (nsub (snd (y_range (equity_ys points)))
                                    (fst (y_range (equity_ys points))))))
                        (Fin (rect_height c - pad * 2)))))
            [0..<length points]) \<and>
   (2 \<le> length points \<and> equity_ys points = map Fin vs \<longrightarrow>
      last (stroked [] (drawEquityCurve (Some c) (Some points))) =
        map (\<lambda>i. (Fin (pad + real i / (real (length points) - 1) * (rect_width c - pad * 2)),
                   Fin (pad + (1 - (vs ! i - Min (set vs)) /
                          ((if Min (set vs) = Max (set vs) then Min (set vs) + 1 else Max (set vs))
                             - Min (set vs))) * (rect_height c - pad * 2))))
            [0..<length points]) \<and>
   last (stroked [] (drawEquityCurve
      (Some \<lparr>rect_width = 300, rect_height = 100, devicePixelRatio = d\<rparr>)
      (Some [\<lparr>equity = Num (Fin 100)\<rparr>, \<lparr>equity = Num (Fin 150)\<rparr>, \<lparr>equity = Num (Fin 90)\<rparr>]))) =
     [(Fin 14, Fin 74), (Fin 150, Fin 14), (Fin 286, Fin 86)]"
proof (intro conjI impI)
  assume "2 \<le> length points"
  then show "last (stroked [] (drawEquityCurve (Some c) (Some points))) =
        map (\<lambda>i. (nadd (Fin pad)
                     (nmul (ndiv (Fin (real i)) (Fin (real (length points) - 1)))
                        (Fin (rect_width c - pad * 2))),
                   nadd (Fin pad)
                     (nmul (nsub (Fin 1)
                              (ndiv (nsub (equity_ys points ! i) (fst (y_range (equity_ys points))))
                                 (nsub (snd (y_range (equity_ys points)))
                                    (fst (y_range (equity_ys points))))))
                        (Fin (rect_height c - pad * 2)))))
            [0..<length points]"
    by (simp add: stroked_draw xAt_def yAt_def Let_def)
next
  assume a: "2 \<le> length points \<and> equity_ys points = map Fin vs"
  then have len: "length vs = length points"
    by (metis length_map equity_ys_def)
  with a have ne: "vs \<noteq> []" by auto
  define mn where "mn = Min (set vs)"
  define mx where "mx = (if Min (set vs) = Max (set vs) then Min (set vs) + 1 else Max (set vs))"
  have neq: "mn \<noteq> mx" by (simp add: mn_def mx_def)
  have rng: "y_range (map Fin vs) = (Fin mn, Fin mx)"
    using ne by (simp add: y_range_Fin mn_def mx_def)
  have y: "i < length points \<Longrightarrow>
      yAt (Fin mn, Fin mx) ih (map Fin vs ! i) = Fin (pad + (1 - (vs ! i - mn) / (mx - mn)) * ih)"
    for i ih
    using len yAt_Fin [OF neq] by simp
  have "last (stroked [] (drawEquityCurve (Some c) (Some points))) =
        map (\<lambda>i. (Fin (pad + real i / (real (length points) - 1) * (rect_width c - pad * 2)),
                   Fin (pad + (1 - (vs ! i - mn) / (mx - mn)) * (rect_height c - pad * 2))))
            [0..<length points]"
    using a by (simp add: stroked_draw rng xAt_Fin y del: upt_Suc)
  then show "last (stroked [] (drawEquityCurve (Some c) (Some points))) =
        map (\<lambda>i. (Fin (pad + real i / (real (length points) - 1) * (rect_width c - pad * 2)),
                   Fin (pad + (1 - (vs ! i - Min (set vs)) /
                          ((if Min (set vs) = Max (set vs) then Min (set vs) + 1 else Max (set vs))
                             - Min (set vs))) * (rect_height c - pad * 2))))
            [0..<length points]"
    unfolding mn_def mx_def .
next
  show "last (stroked [] (drawEquityCurve
      (Some \<lparr>rect_width = 300, rect_height = 100, devicePixelRatio = d\<rparr>)
      (Some [\<lparr>equity = Num (Fin 100)\<rparr>, \<lparr>equity = Num (Fin 150)\<rparr>, \<lparr>equity = Num (Fin 90)\<rparr>]))) =
     [(Fin 14, Fin 74), (Fin 150, Fin 14), (Fin 286, Fin 86)]"
    by (simp add: stroked_draw upt_5 xAt_def yAt_def y_range_def equity_ys_def math_min_def
        math_max_def strict_eq_def nsub_def js_or_def pad_def upt_conv_Cons Let_def)
qed

text \<open>
  The general part at \<^verbatim>\<open>[{equity: 100}, {equity: "150"}, {equity: 90}]\<close>, pixel
  ratio 2.
\<close>

theorem chart_coordinate_mapping_witness:
  "2 \<le> length [\<lparr>equity = Num (Fin 100)\<rparr>, \<lparr>equity = Str ''150''\<rparr>, \<lparr>equity = Num (Fin 90)\<rparr>] \<and>
   equity_ys [\<lparr>equity = Num (Fin 100)\<rparr>, \<lparr>equity = Str ''150''\<rparr>, \<lparr>equity = Num (Fin 90)\<rparr>] =
     map Fin [100, 150, 90] \<and>
   last (stroked [] (drawEquityCurve
      (Some \<lparr>rect_width = 300, rect_height = 100, devicePixelRatio = Num (Fin 2)\<rparr>)
      (Some [\<lparr>equity = Num (Fin 100)\<rparr>, \<lparr>equity = Str ''150''\<rparr>, \<lparr>equity = Num (Fin 90)\<rparr>]))) =
     [(Fin 14, Fin 74), (Fin 150, Fin 14), (Fin 286, Fin 86)]"
proof -
  have ys: "equity_ys [\<lparr>equity = Num (Fin 100)\<rparr>, \<lparr>equity = Str ''150''\<rparr>, \<lparr>equity = Num (Fin 90)\<rparr>] =
      map Fin [100, 150, 90]"
    by (simp add: equity_ys_def js_or_def number_of_150)
  show ?thesis
    using chart_coordinate_mapping
      [where points = "[\<lparr>equity = Num (Fin 100)\<rparr>, \<lparr>equity = Str ''150''\<rparr>, \<lparr>equity = Num (Fin 90)\<rparr>]"
        and vs = "[100, 150, 90]"
        and c = "\<lparr>rect_width = 300, rect_height = 100, devicePixelRatio = Num (Fin 2)\<rparr>",
        THEN conjunct2, THEN conjunct1] ys
    by (simp add: pad_def upt_conv_Cons)
qed

text \<open>
  C7. On a canvas that exists, for every points argument that is absent or has fewer
  than two elements, \<^verbatim>\<open>drawEquityCurve\<close> resizes the buffer, clears the surface, sets
  the text style and draws the one message; it builds, strokes and fills no path.
\<close>

theorem drawEquityCurve_no_data:
  assumes "points = None \<or> (\<exists>ps. points = Some ps \<and> length ps < 2)"
  shows "drawEquityCurve (Some c) points =
           setup_ops c @
           [GlobalAlpha 0.9, Font ''700 14px system-ui'', FillStyle ''rgba(233,238,247,.70)'',
            FillText ''Equity curve will appear here once KAQT records daily snapshots.''
              (Fin 14) (Fin 32)] \<and>
         last (setup_ops c) =
           ClearRect (Fin 0) (Fin 0) (Fin (rect_width c)) (Fin (rect_height c)) \<and>
         filter draws_shape (drawEquityCurve (Some c) points) = []"
  using assms by (auto simp: drawEquityCurve_def no_data_ops_def setup_ops_def Let_def)

theorem drawEquityCurve_no_data_witness:
  "drawEquityCurve (Some \<lparr>rect_width = 300, rect_height = 100, devicePixelRatio = Undefined\<rparr>)
      (Some [\<lparr>equity = Num (Fin 100)\<rparr>]) =
     [SetWidth (Fin 300), SetHeight (Fin 100),
      SetTransform (Fin 1) (Fin 0) (Fin 0) (Fin 1) (Fin 0) (Fin 0),
      ClearRect (Fin 0) (Fin 0) (Fin 300) (Fin 100),
      GlobalAlpha 0.9, Font ''700 14px system-ui'', FillStyle ''rgba(233,238,247,.70)'',
      FillText ''Equity curve will appear here once KAQT records daily snapshots.''
        (Fin 14) (Fin 32)]"
  using drawEquityCurve_no_data [of "Some [\<lparr>equity = Num (Fin 100)\<rparr>]"
      "\<lparr>rect_width = 300, rect_height = 100, devicePixelRatio = Undefined\<rparr>"]
  by (simp add: setup_ops_def js_or_def Let_def)

text \<open>
  C10. A point whose equity is absent, \<^verbatim>\<open>null\<close> or any other falsy value reads as
  \<open>0\<close>. In a series of at least two points it is plotted at
  \<open>x i = pad + (i / (n - 1)) * innerWidth\<close> and at the height of the value \<open>0\<close>,
  \<open>pad + (1 - (0 - minY) / (maxY - minY)) * innerHeight\<close>. It counts as \<open>0\<close> in the
  range: when the values of the series are the finite numbers \<open>vs\<close>, \<open>minY\<close> is the
  least of them, at most \<open>0\<close>, and \<open>maxY\<close> the greatest, at least \<open>0\<close>, or \<open>1\<close> when all
  are \<open>0\<close>. And replacing falsy equities by the number \<open>0\<close> changes neither the values
  nor any call of the drawing.
\<close>

theorem falsy_equity_counts_as_zero:
  "(i < length ps \<and> \<not> truthy (equity (ps ! i)) \<longrightarrow> equity_ys ps ! i = Fin 0) \<and>
   (2 \<le> length ps \<and> i < length ps \<and> \<not> truthy (equity (ps ! i)) \<longrightarrow>
      last (stroked [] (drawEquityCurve (Some c) (Some ps))) ! i =
        (nadd (Fin pad)
           (nmul (ndiv (Fin (real i)) (Fin (real (length ps) - 1))) (Fin (rect_width c - pad * 2))),
         nadd (Fin pad)
           (nmul (nsub (Fin 1)
                    (ndiv (nsub (Fin 0) (fst (y_range (equity_ys ps))))
                       (nsub (snd (y_range (equity_ys ps))) (fst (y_range (equity_ys ps))))))
              (Fin (rect_height c - pad * 2))))) \<and>
   (i < length ps \<and> \<not> truthy (equity (ps ! i)) \<and> equity_ys ps = map Fin vs \<longrightarrow>
      y_range (equity_ys ps) =
        (Fin (Min (set vs)), Fin (if Min (set vs) = Max (set vs) then 1 else Max (set vs))) \<and>
      Min (set vs) \<le> 0 \<and> 0 \<le> Max (set vs)) \<and>
   (list_all2 (\<lambda>p q. equity q = equity p \<or>
                       (\<not> truthy (equity p) \<and> equity q = Num (Fin 0))) ps qs \<longrightarrow>
      equity_ys ps = equity_ys qs \<and>
      drawEquityCurve cv (Some ps) = drawEquityCurve cv (Some qs))"
proof -
  have zero: "i < length ps \<and> \<not> truthy (equity (ps ! i)) \<longrightarrow> equity_ys ps ! i = Fin 0"
    by (simp add: equity_ys_def falsy_to_zero)
  have vertex: "2 \<le> length ps \<and> i < length ps \<and> \<not> truthy (equity (ps ! i)) \<longrightarrow>
      last (stroked [] (drawEquityCurve (Some c) (Some ps))) ! i =
        (nadd (Fin pad)
           (nmul (ndiv (Fin (real i)) (Fin (real (length ps) - 1))) (Fin (rect_width c - pad * 2))),
         nadd (Fin pad)
           (nmul (nsub (Fin 1)
                    (ndiv (nsub (Fin 0) (fst (y_range (equity_ys ps))))
                       (nsub (snd (y_range (equity_ys ps))) (fst (y_range (equity_ys ps))))))
              (Fin (rect_height c - pad * 2))))"
  proof
    assume a: "2 \<le> length ps \<and> i < length ps \<and> \<not> truthy (equity (ps ! i))"
    with zero have z: "equity_ys ps ! i = Fin 0" by simp
    from a show "last (stroked [] (drawEquityCurve (Some c) (Some ps))) ! i =
        (nadd (Fin pad)
           (nmul (ndiv (Fin (real i)) (Fin (real (length ps) - 1))) (Fin (rect_width c - pad * 2))),
         nadd (Fin pad)
           (nmul (nsub (Fin 1)
                    (ndiv (nsub (Fin 0) (fst (y_range (equity_ys ps))))
                       (nsub (snd (y_range (equity_ys ps))) (fst (y_range (equity_ys ps))))))
              (Fin (rect_height c - pad * 2))))"
      by (simp add: stroked_draw z xAt_def yAt_def Let_def del: upt_Suc)
  qed
  have range: "i < length ps \<and> \<not> truthy (equity (ps ! i)) \<and> equity_ys ps = map Fin vs \<longrightarrow>
      y_range (equity_ys ps) =
        (Fin (Min (set vs)), Fin (if Min (set vs) = Max (set vs) then 1 else Max (set vs))) \<and>
      Min (set vs) \<le> 0 \<and> 0 \<le> Max (set vs)"
  proof
    assume a: "i < length ps \<and> \<not> truthy (equity (ps ! i)) \<and> equity_ys ps = map Fin vs"
    then have len: "length vs = length ps"
      by (metis length_map equity_ys_def)
    from a zero have "equity_ys ps ! i = Fin 0" by blast
    with a len have "vs ! i = 0" by simp
    with a len have mem: "0 \<in> set vs" by (metis nth_mem)
    then have ne: "vs \<noteq> []" by auto
    from mem have lo: "Min (set vs) \<le> 0" by simp
    from mem have hi: "0 \<le> Max (set vs)" by simp
    from lo hi have one: "Min (set vs) = Max (set vs) \<Longrightarrow> Min (set vs) + 1 = 1" by linarith
    have "y_range (map Fin vs) =
          (Fin (Min (set vs)), Fin (if Min (set vs) = Max (set vs) then 1 else Max (set vs)))"
      using ne one by (simp add: y_range_Fin del: Min_le_iff Max_ge_iff)
    with a lo hi show "y_range (equity_ys ps) =
          (Fin (Min (set vs)), Fin (if Min (set vs) = Max (set vs) then 1 else Max (set vs))) \<and>
        Min (set vs) \<le> 0 \<and> 0 \<le> Max (set vs)"
      by simp
  qed
  have same: "list_all2 (\<lambda>p q. equity q = equity p \<or>
                       (\<not> truthy (equity p) \<and> equity q = Num (Fin 0))) ps qs \<longrightarrow>
      equity_ys ps = equity_ys qs \<and>
      drawEquityCurve cv (Some ps) = drawEquityCurve cv (Some qs)"
  proof
    assume r: "list_all2 (\<lambda>p q. equity q = equity p \<or>
                       (\<not> truthy (equity p) \<and> equity q = Num (Fin 0))) ps qs"
    then have ys: "equity_ys ps = equity_ys qs"
    proof (induction rule: list_all2_induct)
      case Nil
      show ?case by (simp add: equity_ys_def)
    next
      case (Cons p ps q qs)
      then show ?case by (auto simp: equity_ys_def js_or_def)
    qed
    have len: "length ps = length qs"
      using r by (rule list_all2_lengthD)
    have "drawEquityCurve cv (Some ps) = drawEquityCurve cv (Some qs)"
      by (cases cv) (simp_all add: drawEquityCurve_def ys len)
    with ys show "equity_ys ps = equity_ys qs \<and>
      drawEquityCurve cv (Some ps) = drawEquityCurve cv (Some qs)" by simp
  qed
  show ?thesis
    by (rule conjI [OF zero conjI [OF vertex conjI [OF range same]]])
qed

text \<open>
  The series \<^verbatim>\<open>[{equity: null}, {equity: 10}, {}]\<close> on a 300 by 100 surface: the
  range is \<open>(0, 10)\<close> and the last point is plotted on the baseline, at \<open>(286, 86)\<close>.
\<close>

theorem falsy_equity_counts_as_zero_witness:
  "2 \<le> length [\<lparr>equity = Null\<rparr>, \<lparr>equity = Num (Fin 10)\<rparr>, \<lparr>equity = Undefined\<rparr>] \<and>
   \<not> truthy (equity ([\<lparr>equity = Null\<rparr>, \<lparr>equity = Num (Fin 10)\<rparr>, \<lparr>equity = Undefined\<rparr>] ! 2)) \<and>
   equity_ys [\<lparr>equity = Null\<rparr>, \<lparr>equity = Num (Fin 10)\<rparr>, \<lparr>equity = Undefined\<rparr>] =
     map Fin [0, 10, 0] \<and>
   y_range (equity_ys [\<lparr>equity = Null\<rparr>, \<lparr>equity = Num (Fin 10)\<rparr>, \<lparr>equity = Undefined\<rparr>]) =
     (Fin 0, Fin 10) \<and>
   last (stroked [] (drawEquityCurve
      (Some \<lparr>rect_width = 300, rect_height = 100, devicePixelRatio = Num (Fin 1)\<rparr>)
      (Some [\<lparr>equity = Null\<rparr>, \<lparr>equity = Num (Fin 10)\<rparr>, \<lparr>equity = Undefined\<rparr>]))) ! 2 =
     (Fin 286, Fin 86) \<and>
   drawEquityCurve (Some \<lparr>rect_width = 300, rect_height = 100, devicePixelRatio = Num (Fin 1)\<rparr>)
     (Some [\<lparr>equity = Null\<rparr>, \<lparr>equity = Num (Fin 10)\<rparr>, \<lparr>equity = Undefined\<rparr>]) =
   drawEquityCurve (Some \<lparr>rect_width = 300, rect_height = 100, devicePixelRatio = Num (Fin 1)\<rparr>)
     (Some [\<lparr>equity = Num (Fin 0)\<rparr>, \<lparr>equity = Num (Fin 10)\<rparr>, \<lparr>equity = Num (Fin 0)\<rparr>])"
proof -
  let ?ps = "[\<lparr>equity = Null\<rparr>, \<lparr>equity = Num (Fin 10)\<rparr>, \<lparr>equity = Undefined\<rparr>]"
  let ?qs = "[\<lparr>equity = Num (Fin 0)\<rparr>, \<lparr>equity = Num (Fin 10)\<rparr>, \<lparr>equity = Num (Fin 0)\<rparr>]"
  let ?c = "\<lparr>rect_width = 300, rect_height = 100, devicePixelRatio = Num (Fin 1)\<rparr>"
  note t = falsy_equity_counts_as_zero [where i = 2 and ps = ?ps and c = ?c and vs = "[0, 10, 0]" and qs = ?qs
      and cv = "Some ?c"]
  have ys: "equity_ys ?ps = map Fin [0, 10, 0]"
    by (simp add: equity_ys_def js_or_def)
  have f: "\<not> truthy (equity (?ps ! 2))" by simp
  have rel: "list_all2 (\<lambda>p q. equity q = equity p \<or>
                       (\<not> truthy (equity p) \<and> equity q = Num (Fin 0))) ?ps ?qs"
    by simp
  from t [THEN conjunct2, THEN conjunct2, THEN conjunct1] f ys
  have rng: "y_range (equity_ys ?ps) = (Fin 0, Fin 10)" by simp
  from t [THEN conjunct2, THEN conjunct1] f
  have v: "last (stroked [] (drawEquityCurve (Some ?c) (Some ?ps))) ! 2 = (Fin 286, Fin 86)"
    by (simp add: rng nsub_def pad_def)
  from t [THEN conjunct2, THEN conjunct2, THEN conjunct2] rel
  have d: "drawEquityCurve (Some ?c) (Some ?ps) = drawEquityCurve (Some ?c) (Some ?qs)"
    by blast
  from f ys rng v d show ?thesis by simp
qed

section \<open>Properties of the formatters and the tables\<close>

text \<open>With the one option \<^verbatim>\<open>maximumFractionDigits\<close> the format is accepted.\<close>

lemma fmtUSD_eq: "fmtUSD x = Inr [Currency 0 0 (to_number (js_or x (Num (Fin 0))))]"
  by (simp add: fmtUSD_def toLocaleString_currency_def currency_digits_def)

lemma fmtUSD2_eq: "fmtUSD2 x = Inr [Currency 2 2 (to_number (js_or x (Num (Fin 0))))]"
  by (simp add: fmtUSD2_def toLocaleString_currency_def currency_digits_def)




lemma js_slice_neg: "0 < k \<Longrightarrow> js_slice (- int k) xs = drop (length xs - k) xs"
  by (auto simp: js_slice_def Let_def max_def nat_diff_distrib')

text \<open>
  C8. For a trade list of \<open>n > 0\<close> entries, on a table body that exists,
  \<^verbatim>\<open>renderTrades\<close> renders \<open>min 50 n\<close> rows, and row \<open>j\<close> shows the entry \<open>j\<close> places
  from the end of the list: the last fifty entries, or all of them when there are at
  most fifty, last entry first. The empty list has no entry to render, and gets the
  placeholder row.
\<close>

theorem renderTrades_last_50_newest_first:
  "(ts \<noteq> [] \<longrightarrow>
     (\<exists>rows. renderTrades now (Some ts) (Some old) = Some rows \<and>
        length rows = min 50 (length ts) \<and>
        (\<forall>j<length rows. rows ! j = trade_row now (ts ! (length ts - 1 - j))))) \<and>
   renderTrades now (Some []) (Some old) = Some [Placeholder 5 ''No trades yet.'']"
proof (intro conjI impI)
  show "renderTrades now (Some []) (Some old) = Some [Placeholder 5 ''No trades yet.'']"
    by (simp add: renderTrades_def)
next
  assume ne: "ts \<noteq> []"
  let ?rows = "map (trade_row now) (rev (drop (length ts - 50) ts))"
  have r: "renderTrades now (Some ts) (Some old) = Some ?rows"
    using ne js_slice_neg [of 50 ts] by (simp add: renderTrades_def)
  have l: "length ?rows = min 50 (length ts)" by auto
  have n: "\<forall>j<length ?rows. ?rows ! j = trade_row now (ts ! (length ts - 1 - j))"
  proof (intro allI impI)
    fix j assume j: "j < length ?rows"
    then have "rev (drop (length ts - 50) ts) ! j = ts ! (length ts - 1 - j)"
      by (simp add: rev_nth)
    with j show "?rows ! j = trade_row now (ts ! (length ts - 1 - j))" by simp
  qed
  from r l n show "\<exists>rows. renderTrades now (Some ts) (Some old) = Some rows \<and>
        length rows = min 50 (length ts) \<and>
        (\<forall>j<length rows. rows ! j = trade_row now (ts ! (length ts - 1 - j)))"
    by blast
qed

text \<open>Sixty trades, numbered 0 to 59: fifty rows, from trade 59 down to trade 10.\<close>

theorem renderTrades_last_50_newest_first_witness:
  "map sample_trade [0..<60] \<noteq> [] \<and>
   (\<exists>rows. renderTrades 0 (Some (map sample_trade [0..<60])) (Some []) = Some rows \<and>
      length rows = 50 \<and> rows ! 0 = trade_row 0 (sample_trade 59) \<and>
      rows ! 49 = trade_row 0 (sample_trade 10))"
proof -
  have ne: "map sample_trade [0..<60] \<noteq> []" by simp
  from renderTrades_last_50_newest_first [of "map sample_trade [0..<60]" 0 "[]"] ne
  obtain rows where r: "renderTrades 0 (Some (map sample_trade [0..<60])) (Some []) = Some rows"
    and l: "length rows = min 50 (length (map sample_trade [0..<60]))"
    and n: "\<forall>j<length rows. rows ! j =
        trade_row 0 (map sample_trade [0..<60] ! (length (map sample_trade [0..<60]) - 1 - j))"
    by blast
  from l have l50: "length rows = 50" by simp
  from n l50 have "rows ! 0 = trade_row 0 (sample_trade 59)" by simp
  moreover from n l50 have "rows ! 49 = trade_row 0 (sample_trade 10)" by simp
  ultimately show ?thesis using ne r l50 by blast
qed




section \<open>Properties of the refresh and the commands\<close>

subsection \<open>The statements that show the status\<close>

text \<open>They change no log, and none of them throws.\<close>

lemma run_steps_log: "log (final (run_steps steps w)) = log w"
proof (induction steps arbitrary: w)
  case Nil
  show ?case by simp
next
  case (Cons st steps)
  show ?case
  proof (cases st)
    case (Inl e)
    then show ?thesis by simp
  next
    case (Inr u)
    then show ?thesis using Cons [of "apply_update u w"] by (cases u) simp_all
  qed
qed

lemma show_status_log: "log (final (show_status s w)) = log w"
  by (simp add: show_status_def run_steps_log)

lemma show_status_Done_log: "show_status s w = Done w' \<Longrightarrow> log w' = log w"
  using show_status_log [of s w] by simp

lemma show_status_Threw_log: "show_status s w = Threw w' \<Longrightarrow> log w' = log w"
  using show_status_log [of s w] by simp

lemma status_steps_run:
  "\<exists>w'. show_status s w = Done w'"
  by (simp add: show_status_def status_steps_def set_text_def fmtUSD_eq fmtUSD2_eq Let_def)

subsection \<open>What the status panel shows\<close>







subsection \<open>The refresh\<close>

text \<open>
  C6. When the readiness check fails (\<^verbatim>\<open>window.pywebview\<close> or its \<^verbatim>\<open>api\<close> is missing),
  \<^verbatim>\<open>refreshAll()\<close> returns without throwing and leaves everything as it was: the log
  gains no call on the bridge, and no text, dot, button, table or canvas changes.
\<close>

theorem refreshAll_without_bridge:
  assumes "backendReady w = None"
  shows "refreshAll w = Done w"
  using assms by (simp add: refreshAll_def)

theorem refreshAll_without_bridge_witness:
  "backendReady (sample_page None) = None \<and>
   refreshAll (sample_page None) = Done (sample_page None) \<and>
   backendReady (sample_page (Some None)) = None \<and>
   refreshAll (sample_page (Some None)) = Done (sample_page (Some None))"
  using refreshAll_without_bridge [of "sample_page None"]
    refreshAll_without_bridge [of "sample_page (Some None)"]
  by (simp add: backendReady_def sample_page_def)

text \<open>A refresh sends queries only: the commands and alerts of the log stay as they are.\<close>

lemma refreshAll_without_queries:
  "without_queries (log (final (refreshAll w))) = without_queries (log w)"
  by (auto simp add: refreshAll_def logged_def without_queries_def Let_def
      dest: show_status_Done_log show_status_Threw_log
      split: option.splits reply.splits outcome.splits)

lemma refreshAll_log_resolved:
  assumes "backendReady w = Some a"
    and "get_status a (backend w) = Resolves s"
    and "get_positions a (backend w) = Resolves pos"
    and "get_trades a (backend w) = Resolves trd"
    and "get_equity_curve a (backend w) = Resolves curve"
  shows "log (final (refreshAll w)) =
           log w @ [Call GetStatus, Call GetPositions, Call GetTrades, Call GetEquityCurve]"
proof -
  obtain w' where d: "show_status s (logged (Call GetStatus) w) = Done w'"
    using status_steps_run by blast
  then have "log w' = log w @ [Call GetStatus]"
    using show_status_Done_log [OF d] by (simp add: logged_def)
  with assms d show ?thesis
    by (simp add: refreshAll_def logged_def Let_def)
qed

lemma startEngine_ready:
  assumes "backendReady w = Some a" and "fst (start_engine a (backend w)) = Resolves r"
  shows "startEngine w =
           refreshAll (w\<lparr>backend := snd (start_engine a (backend w)),
                        log := log w @ [Call StartEngine,
                          Alert (to_string (js_or (r_message r)
                            (Str (if truthy (r_ok r) then ''Engine started'' else ''Failed''))))]\<rparr>)"
  using assms by (simp add: startEngine_def logged_def Let_def)

lemma stopEngine_ready:
  assumes "backendReady w = Some a" and "fst (stop_engine a (backend w)) = Resolves r"
  shows "stopEngine w =
           refreshAll (w\<lparr>backend := snd (stop_engine a (backend w)),
                        log := log w @ [Call StopEngine,
                          Alert (to_string (js_or (r_message r)
                            (Str (if truthy (r_ok r) then ''Engine stopped'' else ''Failed''))))]\<rparr>)"
  using assms by (simp add: stopEngine_def logged_def Let_def)

lemma save_sched_ready:
  assumes "backendReady w = Some a"
    and "hour = to_number (js_or (Str (inputs w ''sched-hour'')) (Num (Fin 0)))"
    and "minute = to_number (js_or (Str (inputs w ''sched-minute'')) (Num (Fin 0)))"
    and "fst (set_scheduler_time a hour minute (backend w)) = Resolves r"
  shows "save_sched_click w =
           refreshAll (w\<lparr>backend := snd (set_scheduler_time a hour minute (backend w)),
                        log := log w @ [Call (SetSchedulerTime hour minute),
                          Alert (to_string (js_or (r_message r) (Str ''Saved'')))]\<rparr>)"
  using assms by (simp add: save_sched_click_def logged_def Let_def)

lemma save_conn_ready:
  assumes "backendReady w = Some a"
    and "fst (save_broker_config a (conn_payload w) (backend w)) = Resolves r"
  shows "save_conn_click w =
           Done (w\<lparr>backend := snd (save_broker_config a (conn_payload w) (backend w)),
                   log := log w @ [Call (SaveBrokerConfig (conn_payload w)),
                          Alert (to_string (js_or (r_message r) (Str ''Saved'')))]\<rparr>)"
  using assms by (simp add: save_conn_click_def logged_def Let_def)

subsection \<open>The commands\<close>

lemma sample_ready: "backendReady (sample_page (Some (Some sample_api))) = Some sample_api"
  by (simp add: backendReady_def sample_page_def)

lemma sample_not_ready: "backendReady (sample_page (Some None)) = None"
  by (simp add: backendReady_def sample_page_def)

lemma sample_inputs: "inputs (sample_page b) k = []" "backend (sample_page b) = False"
  "log (sample_page b) = []"
  by (simp_all add: sample_page_def)

lemma sample_calls:
  "start_engine sample_api b = (Resolves \<lparr>r_message = Undefined, r_ok = Bool True\<rparr>, True)"
  "stop_engine sample_api b = (Resolves \<lparr>r_message = Str ''Engine halted'', r_ok = Bool True\<rparr>, False)"
  "save_broker_config sample_api p b = (Resolves \<lparr>r_message = Undefined, r_ok = Undefined\<rparr>, b)"
  "set_scheduler_time sample_api h m b = (Resolves \<lparr>r_message = Undefined, r_ok = Undefined\<rparr>, b)"
  by (simp_all add: sample_api_def)

text \<open>
  C3, as amended. While the bridge is ready and the command's call resolves,
  \<^verbatim>\<open>startEngine\<close>, \<^verbatim>\<open>stopEngine\<close> and the handler of save-schedule send one command,
  alert the backend's message, or the generic one when it has none, and then run
  \<^verbatim>\<open>refreshAll()\<close> on the page so far; the handler of save-connection sends one command
  and alerts the message or \<^verbatim>\<open>Saved\<close>. While the bridge is not ready, \<^verbatim>\<open>startEngine\<close> and
  \<^verbatim>\<open>stopEngine\<close> alert \<^verbatim>\<open>Backend not ready.\<close> and do nothing else.
\<close>

theorem commands_call_once_then_refresh:
  "(backendReady w = Some a \<and> fst (start_engine a (backend w)) = Resolves r1 \<longrightarrow>
      startEngine w =
        refreshAll (w\<lparr>backend := snd (start_engine a (backend w)),
                     log := log w @ [Call StartEngine,
                       Alert (to_string (js_or (r_message r1)
                         (Str (if truthy (r_ok r1) then ''Engine started'' else ''Failed''))))]\<rparr>) \<and>
      without_queries (log (final (startEngine w))) =
        without_queries (log w) @ [Call StartEngine,
          Alert (to_string (js_or (r_message r1)
            (Str (if truthy (r_ok r1) then ''Engine started'' else ''Failed''))))]) \<and>
   (backendReady w = Some a \<and> fst (stop_engine a (backend w)) = Resolves r2 \<longrightarrow>
      stopEngine w =
        refreshAll (w\<lparr>backend := snd (stop_engine a (backend w)),
                     log := log w @ [Call StopEngine,
                       Alert (to_string (js_or (r_message r2)
                         (Str (if truthy (r_ok r2) then ''Engine stopped'' else ''Failed''))))]\<rparr>) \<and>
      without_queries (log (final (stopEngine w))) =
        without_queries (log w) @ [Call StopEngine,
          Alert (to_string (js_or (r_message r2)
            (Str (if truthy (r_ok r2) then ''Engine stopped'' else ''Failed''))))]) \<and>
   (backendReady w = Some a \<and>
    hour = to_number (js_or (Str (inputs w ''sched-hour'')) (Num (Fin 0))) \<and>
    minute = to_number (js_or (Str (inputs w ''sched-minute'')) (Num (Fin 0))) \<and>
    fst (set_scheduler_time a hour minute (backend w)) = Resolves r3 \<longrightarrow>
      save_sched_click w =
        refreshAll (w\<lparr>backend := snd (set_scheduler_time a hour minute (backend w)),
                     log := log w @ [Call (SetSchedulerTime hour minute),
                       Alert (to_string (js_or (r_message r3) (Str ''Saved'')))]\<rparr>) \<and>
      without_queries (log (final (save_sched_click w))) =
        without_queries (log w) @ [Call (SetSchedulerTime hour minute),
          Alert (to_string (js_or (r_message r3) (Str ''Saved'')))]) \<and>
   (backendReady w = Some a \<and>
    fst (save_broker_config a (conn_payload w) (backend w)) = Resolves r4 \<longrightarrow>
      without_queries (log (final (save_conn_click w))) =
        without_queries (log w) @ [Call (SaveBrokerConfig (conn_payload w)),
          Alert (to_string (js_or (r_message r4) (Str ''Saved'')))]) \<and>
   (backendReady w0 = None \<longrightarrow>
      startEngine w0 = Done (w0\<lparr>log := log w0 @ [Alert [Lit ''Backend not ready.'']]\<rparr>) \<and>
      stopEngine w0 = Done (w0\<lparr>log := log w0 @ [Alert [Lit ''Backend not ready.'']]\<rparr>))"
proof (intro conjI impI)
  assume h: "backendReady w = Some a \<and> fst (start_engine a (backend w)) = Resolves r1"
  then show eq: "startEngine w =
        refreshAll (w\<lparr>backend := snd (start_engine a (backend w)),
                     log := log w @ [Call StartEngine,
                       Alert (to_string (js_or (r_message r1)
                         (Str (if truthy (r_ok r1) then ''Engine started'' else ''Failed''))))]\<rparr>)"
    by (simp add: startEngine_ready)
  show "without_queries (log (final (startEngine w))) =
        without_queries (log w) @ [Call StartEngine,
          Alert (to_string (js_or (r_message r1)
            (Str (if truthy (r_ok r1) then ''Engine started'' else ''Failed''))))]"
    by (simp only: eq refreshAll_without_queries) (simp add: without_queries_def)
next
  assume h: "backendReady w = Some a \<and> fst (stop_engine a (backend w)) = Resolves r2"
  then show eq: "stopEngine w =
        refreshAll (w\<lparr>backend := snd (stop_engine a (backend w)),
                     log := log w @ [Call StopEngine,
                       Alert (to_string (js_or (r_message r2)
                         (Str (if truthy (r_ok r2) then ''Engine stopped'' else ''Failed''))))]\<rparr>)"
    by (simp add: stopEngine_ready)
  show "without_queries (log (final (stopEngine w))) =
        without_queries (log w) @ [Call StopEngine,
          Alert (to_string (js_or (r_message r2)
            (Str (if truthy (r_ok r2) then ''Engine stopped'' else ''Failed''))))]"
    by (simp only: eq refreshAll_without_queries) (simp add: without_queries_def)
next
  assume h: "backendReady w = Some a \<and>
    hour = to_number (js_or (Str (inputs w ''sched-hour'')) (Num (Fin 0))) \<and>
    minute = to_number (js_or (Str (inputs w ''sched-minute'')) (Num (Fin 0))) \<and>
    fst (set_scheduler_time a hour minute (backend w)) = Resolves r3"
  then show eq: "save_sched_click w =
        refreshAll (w\<lparr>backend := snd (set_scheduler_time a hour minute (backend w)),
                     log := log w @ [Call (SetSchedulerTime hour minute),
                       Alert (to_string (js_or (r_message r3) (Str ''Saved'')))]\<rparr>)"
    using save_sched_ready [of w a hour minute r3] by blast
  show "without_queries (log (final (save_sched_click w))) =
        without_queries (log w) @ [Call (SetSchedulerTime hour minute),
          Alert (to_string (js_or (r_message r3) (Str ''Saved'')))]"
    by (simp only: eq refreshAll_without_queries) (simp add: without_queries_def)
next
  assume h: "backendReady w = Some a \<and>
    fst (save_broker_config a (conn_payload w) (backend w)) = Resolves r4"
  then show "without_queries (log (final (save_conn_click w))) =
        without_queries (log w) @ [Call (SaveBrokerConfig (conn_payload w)),
          Alert (to_string (js_or (r_message r4) (Str ''Saved'')))]"
    by (simp add: save_conn_ready without_queries_def)
next
  assume "backendReady w0 = None"
  then show "startEngine w0 = Done (w0\<lparr>log := log w0 @ [Alert [Lit ''Backend not ready.'']]\<rparr>)"
    by (simp add: startEngine_def logged_def)
next
  assume "backendReady w0 = None"
  then show "stopEngine w0 = Done (w0\<lparr>log := log w0 @ [Alert [Lit ''Backend not ready.'']]\<rparr>)"
    by (simp add: stopEngine_def logged_def)
qed

text \<open>The sample bridge, on a page with empty form fields, and a page without bridge.\<close>

theorem commands_call_once_then_refresh_witness:
  "backendReady (sample_page (Some (Some sample_api))) = Some sample_api \<and>
   fst (start_engine sample_api False) = Resolves \<lparr>r_message = Undefined, r_ok = Bool True\<rparr> \<and>
   fst (stop_engine sample_api False) = Resolves \<lparr>r_message = Str ''Engine halted'', r_ok = Bool True\<rparr> \<and>
   fst (set_scheduler_time sample_api (Fin 0) (Fin 0) False) = Resolves \<lparr>r_message = Undefined, r_ok = Undefined\<rparr> \<and>
   fst (save_broker_config sample_api (conn_payload (sample_page (Some (Some sample_api)))) False) =
     Resolves \<lparr>r_message = Undefined, r_ok = Undefined\<rparr> \<and>
   backendReady (sample_page (Some None)) = None \<and>
   without_queries (log (final (startEngine (sample_page (Some (Some sample_api)))))) =
     [Call StartEngine, Alert [Lit ''Engine started'']] \<and>
   without_queries (log (final (stopEngine (sample_page (Some (Some sample_api)))))) =
     [Call StopEngine, Alert [Lit ''Engine halted'']] \<and>
   without_queries (log (final (save_sched_click (sample_page (Some (Some sample_api)))))) =
     [Call (SetSchedulerTime (Fin 0) (Fin 0)), Alert [Lit ''Saved'']] \<and>
   without_queries (log (final (save_conn_click (sample_page (Some (Some sample_api)))))) =
     [Call (SaveBrokerConfig (conn_payload (sample_page (Some (Some sample_api))))), Alert [Lit ''Saved'']] \<and>
   log (final (startEngine (sample_page (Some None)))) = [Alert [Lit ''Backend not ready.'']]"
  using commands_call_once_then_refresh [of "sample_page (Some (Some sample_api))" sample_api
      "\<lparr>r_message = Undefined, r_ok = Bool True\<rparr>"
      "\<lparr>r_message = Str ''Engine halted'', r_ok = Bool True\<rparr>"
      "Fin 0" "Fin 0"
      "\<lparr>r_message = Undefined, r_ok = Undefined\<rparr>"
      "\<lparr>r_message = Undefined, r_ok = Undefined\<rparr>"
      "sample_page (Some None)"]
  by (simp add: sample_ready sample_not_ready sample_inputs sample_calls js_or_def
      refreshAll_without_queries string_to_number_def trim_ws_def)
     (simp add: without_queries_def sample_inputs)

text \<open>
  C3 as stated fails. On the sample bridge the handler of save-connection sends its
  command and alerts, and sends none of the four queries a refresh of that page
  sends; and without a bridge \<^verbatim>\<open>startEngine\<close> sends no command at all.
\<close>
theorem save_conn_without_refresh:
  "log (final (save_conn_click (sample_page (Some (Some sample_api))))) =
     [Call (SaveBrokerConfig \<lparr>broker = ''ibkr'', mode = [], account_id = [], ibkr_host = [],
                              ibkr_port = Fin 0, ibkr_client_id = Fin 0\<rparr>),
      Alert [Lit ''Saved'']] \<and>
   log (final (refreshAll (sample_page (Some (Some sample_api))))) =
     [Call GetStatus, Call GetPositions, Call GetTrades, Call GetEquityCurve] \<and>
   log (final (startEngine (sample_page None))) = [Alert [Lit ''Backend not ready.'']]"
proof -
  have a: "log (final (save_conn_click (sample_page (Some (Some sample_api))))) =
     [Call (SaveBrokerConfig \<lparr>broker = ''ibkr'', mode = [], account_id = [], ibkr_host = [],
                              ibkr_port = Fin 0, ibkr_client_id = Fin 0\<rparr>),
      Alert [Lit ''Saved'']]"
    by (simp add: save_conn_click_def sample_ready sample_inputs sample_calls conn_payload_def
        logged_def Let_def js_or_def trim_ws_def string_to_number_def)
  have b: "log (final (refreshAll (sample_page (Some (Some sample_api))))) =
     [Call GetStatus, Call GetPositions, Call GetTrades, Call GetEquityCurve]"
    using refreshAll_log_resolved [OF sample_ready, of "sample_status False" "Some []" None "Some []"]
    by (simp add: sample_inputs sample_api_def)
  have c: "log (final (startEngine (sample_page None))) = [Alert [Lit ''Backend not ready.'']]"
    by (simp add: startEngine_def backendReady_def sample_page_def logged_def)
  from a b c show ?thesis by blast
qed

end
